theory Spec2Isabelle
  imports Complex_Main
begin

section \<open>Python values and the geometry engine\<close>

text \<open>
  The scripts are Python 3 programs driving the arcpy geometry engine. Python floats are
  idealised as reals (exact arithmetic), Python ints as \<open>int\<close> or \<open>nat\<close>, a field that
  may hold NULL as an \<open>option\<close>. Every exception is a value of \<open>py_error\<close>; a function
  that may raise returns \<open>py_error + 'a\<close>.
\<close>

datatype py_error =
  KeyError | TypeError | AttributeError | ZeroDivisionError | NameError
  | ExecuteError | SystemError

text \<open>\<open>float(v)\<close> of a field value: NULL (\<open>None\<close>) raises TypeError.\<close>

definition py_float :: "real option \<Rightarrow> py_error + real" where
  "py_float v = (case v of None \<Rightarrow> Inl TypeError | Some r \<Rightarrow> Inr r)"

text \<open>\<open>str(n)\<close> of a non-negative int; \<open>digit_char\<close> is only applied below 10.\<close>

definition digit_char :: "nat \<Rightarrow> char" where
  "digit_char d = ''0123456789'' ! d"

fun str_nat :: "nat \<Rightarrow> string" where
  "str_nat n = (if n < 10 then [digit_char n] else str_nat (n div 10) @ [digit_char (n mod 10)])"

declare str_nat.simps [simp del]

section \<open>MGS_XSec_Boreholes.py: borehole sticks\<close>

subsection \<open>add_id\<close>

text \<open>
  \<open>add_id\<close> keeps the upper-case letters of the feature name as the prefix of the
  generated identifiers (ASCII names).
\<close>

definition is_upper_alpha :: "char \<Rightarrow> bool" where
  "is_upper_alpha c = (65 \<le> (of_char c :: nat) \<and> (of_char c :: nat) \<le> 90)"

definition add_id :: "string \<Rightarrow> string \<times> string" where
  "add_id out_name = (out_name @ ''_id'', filter is_upper_alpha out_name)"

subsection \<open>cartesianToGeographic\<close>

text \<open>
  The \<open>return\<close> is inside the \<open>if\<close>: when \<open>ctg\<close> is not negative the function
  falls off its end and returns \<open>None\<close>.
\<close>

definition cartesianToGeographic :: "real \<Rightarrow> real option" where
  "cartesianToGeographic angle =
     (let ctg = - 90 - angle
      in if ctg < 0 then Some (ctg + 360) else None)"

subsection \<open>boreholes\<close>

text \<open>A row of the located points (the route event layer copied to a feature class).\<close>

record located_row =
  OBJECTID :: nat
  WELLID :: string
  shape_M :: real
  zDEM :: "real option"
  BOREH_DEPTH :: "real option"
  LOC_ANGLE :: "real option"
  Distance :: "real option"

text \<open>A row of the borehole-stick feature class: the located row, with the new values.\<close>

record bh_stick =
  attrs :: located_row
  SHAPE :: "(real \<times> real) list"
  LocalXSEC_Azimuth :: "real option"
  DistFromSection :: "real option"
  stick_id :: string

text \<open>
  The block under \<open>if elevUnits == "Meters"\<close>, up to the row handed to
  \<open>cur.insertRow\<close>. \<open>i\<close> is the counter after its increment.
\<close>

definition meters_vals :: "real \<Rightarrow> string \<Rightarrow> nat \<Rightarrow> located_row \<Rightarrow> py_error + bh_stick" where
  "meters_vals ve id_pref i row =
     (let X = shape_M row in
      case py_float (zDEM row) of Inl e \<Rightarrow> Inl e | Inr Ytop \<Rightarrow>
     (case py_float (BOREH_DEPTH row) of Inl e \<Rightarrow> Inl e | Inr depth \<Rightarrow>
     (let Ybot = Ytop - depth;
          bhArray = [(X, Ytop * ve), (X, Ybot * ve)]
      in case LOC_ANGLE row of None \<Rightarrow> Inl TypeError | Some angle \<Rightarrow>
         Inr \<lparr>attrs = row, SHAPE = bhArray,
              LocalXSEC_Azimuth = cartesianToGeographic angle,
              DistFromSection = Distance row,
              stick_id = id_pref @ str_nat i\<rparr>)))"

text \<open>The block under \<open>if elevUnits == "Feet"\<close>: the same, with the factor 0.3048.\<close>

definition feet_vals :: "real \<Rightarrow> string \<Rightarrow> nat \<Rightarrow> located_row \<Rightarrow> py_error + bh_stick" where
  "feet_vals ve id_pref i row =
     (let X = shape_M row in
      case py_float (zDEM row) of Inl e \<Rightarrow> Inl e | Inr elev \<Rightarrow>
     (let Ytop = elev * 0.3048 in
      case py_float (BOREH_DEPTH row) of Inl e \<Rightarrow> Inl e | Inr depth \<Rightarrow>
     (let Ybot = Ytop - (depth * 0.3048);
          bhArray = [(X, Ytop * ve), (X, Ybot * ve)]
      in case LOC_ANGLE row of None \<Rightarrow> Inl TypeError | Some angle \<Rightarrow>
         Inr \<lparr>attrs = row, SHAPE = bhArray,
              LocalXSEC_Azimuth = cartesianToGeographic angle,
              DistFromSection = Distance row,
              stick_id = id_pref @ str_nat i\<rparr>)))"

text \<open>
  \<open>cur.insertRow(vals)\<close> inside \<open>try\<close>: the engine accepts the row (\<open>ins_ok\<close>) or
  raises, and then a warning naming the object id is logged and the row is skipped (the
  name of the table and the text of the exception, which the script adds, are left out).
\<close>

definition insertRow :: "(bh_stick \<Rightarrow> bool) \<Rightarrow> bh_stick \<Rightarrow> bh_stick list \<times> string list" where
  "insertRow ins_ok vals =
     (if ins_ok vals then ([vals], [])
      else ([], [''Could not create feature from objectid '' @ str_nat (OBJECTID (attrs vals))]))"

text \<open>
  The body of \<open>for row in tRows\<close>: two independent \<open>if\<close> statements. The result is the
  counter, the rows inserted and the messages logged; an exception outside the \<open>try\<close>
  leaves the function.
\<close>

definition boreholes_row ::
  "string \<Rightarrow> real \<Rightarrow> string \<Rightarrow> (bh_stick \<Rightarrow> bool) \<Rightarrow> located_row \<Rightarrow> nat
     \<Rightarrow> py_error + (nat \<times> bh_stick list \<times> string list)" where
  "boreholes_row elevUnits ve id_pref ins_ok row i =
     (case (if elevUnits = ''Meters''
            then (case meters_vals ve id_pref (i + 1) row of Inl e \<Rightarrow> Inl e
                  | Inr vals \<Rightarrow> Inr (i + 1, insertRow ins_ok vals))
            else Inr (i, ([], []))) of
        Inl e \<Rightarrow> Inl e
      | Inr (i1, (out1, msgs1)) \<Rightarrow>
          (if elevUnits = ''Feet''
           then (case feet_vals ve id_pref (i1 + 1) row of Inl e \<Rightarrow> Inl e
                 | Inr vals \<Rightarrow>
                     (case insertRow ins_ok vals of
                        (out2, msgs2) \<Rightarrow> Inr (i1 + 1, out1 @ out2, msgs1 @ msgs2)))
           else Inr (i1, out1, msgs1)))"

fun boreholes_loop ::
  "string \<Rightarrow> real \<Rightarrow> string \<Rightarrow> (bh_stick \<Rightarrow> bool) \<Rightarrow> located_row list \<Rightarrow> nat
     \<Rightarrow> py_error + (bh_stick list \<times> string list)" where
  "boreholes_loop elevUnits ve id_pref ins_ok [] i = Inr ([], [])"
| "boreholes_loop elevUnits ve id_pref ins_ok (row # rows) i =
     (case boreholes_row elevUnits ve id_pref ins_ok row i of
        Inl e \<Rightarrow> Inl e
      | Inr (i', out, msgs) \<Rightarrow>
          (case boreholes_loop elevUnits ve id_pref ins_ok rows i' of
             Inl e \<Rightarrow> Inl e
           | Inr (sticks, rest) \<Rightarrow> Inr (out @ sticks, msgs @ rest)))"

text \<open>
  \<open>boreholes(locatedPoints)\<close> for the traverse line \<open>Value\<close>: the sticks written to
  \<open>Value_bhLines\<close> and the warnings.
\<close>

definition boreholes ::
  "string \<Rightarrow> string \<Rightarrow> real \<Rightarrow> (bh_stick \<Rightarrow> bool) \<Rightarrow> located_row list
     \<Rightarrow> py_error + (bh_stick list \<times> string list)" where
  "boreholes Value elevUnits ve ins_ok locatedPoints =
     (let bhLinesName = Value @ ''_bhLines'';
          (uniq_ID, id_pref) = add_id bhLinesName
      in boreholes_loop elevUnits ve id_pref ins_ok locatedPoints 0)"

text \<open>A stick is vertical with its first vertex not below its second.\<close>

definition top_ge_bottom :: "bh_stick \<Rightarrow> bool" where
  "top_ge_bottom s =
     (case SHAPE s of
        [(X1, Ytop), (X2, Ybot)] \<Rightarrow> X1 = X2 \<and> Ybot \<le> Ytop
      | _ \<Rightarrow> False)"

text \<open>A located row whose numeric fields hold numbers.\<close>

definition example_row :: "nat \<Rightarrow> string \<Rightarrow> real \<Rightarrow> real \<Rightarrow> real \<Rightarrow> real \<Rightarrow> located_row" where
  "example_row oid w m elev depth angle =
     \<lparr>OBJECTID = oid, WELLID = w, shape_M = m, zDEM = Some elev,
      BOREH_DEPTH = Some depth, LOC_ANGLE = Some angle, Distance = Some 12\<rparr>"

text \<open>An engine that accepts every row.\<close>

definition accept_all :: "bh_stick \<Rightarrow> bool" where
  "accept_all vals = True"

definition example_stick :: bh_stick where
  "example_stick =
     \<lparr>attrs = example_row 7 ''w1'' 500 500 100 45,
      SHAPE = [(500, 152.4), (500, 121.92)],
      LocalXSEC_Azimuth = Some 225, DistFromSection = Some 12, stick_id = ''AL1''\<rparr>"

text \<open>The vertex lists of the sticks a call produced (none when it raised).\<close>

definition stick_shapes :: "py_error + (bh_stick list \<times> string list) \<Rightarrow> (real \<times> real) list list" where
  "stick_shapes r = (case r of Inl e \<Rightarrow> [] | Inr (sticks, msgs) \<Rightarrow> map SHAPE sticks)"

subsection \<open>locateEvents_Table\<close>

text \<open>
  The geometry engine's part. \<open>AddField\<close> adds the column \<open>xDupDetect\<close>; the script
  never calculates it, so every point holds NULL there. \<open>LocateFeaturesAlongRoutes\<close>
  writes one event row per location the engine finds for a point (\<open>locate\<close>: measure and
  distance; more than one for a point is the artefact the function guards against), and
  each event row carries the attributes of its point. \<open>DeleteIdentical\<close> on a field keeps
  the first row of every group of rows holding the same value in that field, NULL being
  one value.
\<close>

record 'p bh_event =
  source :: 'p
  xDupDetect :: "int option"
  fmp :: real
  ev_Distance :: real

definition AddField_xDupDetect :: "'p list \<Rightarrow> ('p \<times> int option) list" where
  "AddField_xDupDetect pts = map (\<lambda>p. (p, None)) pts"

definition LocateFeaturesAlongRoutes ::
  "('p \<Rightarrow> (real \<times> real) list) \<Rightarrow> ('p \<times> int option) list \<Rightarrow> 'p bh_event list" where
  "LocateFeaturesAlongRoutes locate pts =
     concat (map (\<lambda>(p, d). map (\<lambda>(m, dist).
        \<lparr>source = p, xDupDetect = d, fmp = m, ev_Distance = dist\<rparr>) (locate p)) pts)"

fun delete_identical :: "'k list \<Rightarrow> ('r \<Rightarrow> 'k) \<Rightarrow> 'r list \<Rightarrow> 'r list" where
  "delete_identical seen field [] = []"
| "delete_identical seen field (r # rs) =
     (if field r \<in> set seen then delete_identical seen field rs
      else r # delete_identical (field r # seen) field rs)"

definition DeleteIdentical :: "('r \<Rightarrow> 'k) \<Rightarrow> 'r list \<Rightarrow> 'r list" where
  "DeleteIdentical field tbl = delete_identical [] field tbl"

definition DeleteField_xDupDetect :: "'p bh_event list \<Rightarrow> ('p \<times> real \<times> real) list" where
  "DeleteField_xDupDetect tbl = map (\<lambda>r. (source r, fmp r, ev_Distance r)) tbl"

text \<open>
  \<open>locateEvents_Table\<close>. Without Z values the function calls
  \<open>arcpy.ddd.AddSurfacInformation\<close>, a name the module does not have.
\<close>

definition locateEvents_Table ::
  "bool \<Rightarrow> ('p \<Rightarrow> (real \<times> real) list) \<Rightarrow> bool \<Rightarrow> 'p list
     \<Rightarrow> py_error + ('p \<times> real \<times> real) list" where
  "locateEvents_Table hasZ locate is_lines pts =
     (if \<not> hasZ then Inl AttributeError
      else
        let pts1 = AddField_xDupDetect pts;
            eventLocTable = LocateFeaturesAlongRoutes locate pts1;
            nRows = length eventLocTable;
            nPts = length pts1;
            eventLocTable1 =
              (if nRows > nPts \<and> \<not> is_lines
               then DeleteIdentical xDupDetect eventLocTable else eventLocTable)
        in Inr (DeleteField_xDupDetect eventLocTable1))"

text \<open>Two boreholes, the first located twice at the same place.\<close>

definition locate_twice :: "string \<Rightarrow> (real \<times> real) list" where
  "locate_twice w = (if w = ''A'' then [(10, 1), (10, 1)] else [(20, 2)])"

subsection \<open>The elevation route of a traverse line\<close>

record xs_line =
  XSEC :: string
  DIRECTION :: "string option"

text \<open>
  The body of the update cursor on \<open>["DIRECTION", "QUAD"]\<close>: four \<open>if\<close> statements in
  a row (the \<open>else: pass\<close> belongs to the last). The field QUAD is new, so it starts as
  NULL.
\<close>

definition QUAD_update :: "string option \<Rightarrow> string option \<Rightarrow> string option" where
  "QUAD_update dir quad0 =
     (let q1 = (if dir = Some ''W-E'' \<or> dir = Some ''NW-SE'' \<or> dir = Some ''E-W''
                then Some ''Northwest'' else quad0);
          q2 = (if dir = Some ''SW-NE'' \<or> dir = Some ''S-N'' \<or> dir = Some ''N-S''
                then Some ''Southwest'' else q1);
          q3 = (if dir = Some ''NE-SW'' then Some ''Northeast'' else q2);
          q4 = (if dir = Some ''SE-NW'' then Some ''Southeast'' else q3)
      in q4)"

definition cpDict :: "(string \<times> string) list" where
  "cpDict = [(''Northwest'', ''UPPER_LEFT''), (''Southwest'', ''LOWER_LEFT''),
             (''Northeast'', ''UPPER_RIGHT''), (''Southeast'', ''LOWER_RIGHT'')]"

definition getCPValue :: "string option \<Rightarrow> py_error + string" where
  "getCPValue quadrant =
     (case quadrant of
        None \<Rightarrow> Inl KeyError
      | Some q \<Rightarrow> (case map_of cpDict q of None \<Rightarrow> Inl KeyError | Some cp \<Rightarrow> Inr cp))"

text \<open>
  What the geometry engine does for one traverse line: which of its calls succeed, and
  the extents and the out-of-extent pieces it reports. A failing call raises.
\<close>

record extent =
  XMin :: real
  XMax :: real

record geometry =
  g_extent :: extent
  g_length :: real

record engine =
  prepare_ok :: bool
  interpolate_ok :: bool
  create_routes_ok :: bool
  erase_ok :: bool
  profileAlign :: extent
  mainLineAlign :: extent
  geometries :: "geometry list"
  sticks_ok :: bool
  lithology_ok :: bool
  screens_ok :: bool
  confidence_ok :: bool
  segment_ok :: bool
  cleanup_ok :: bool

definition engine_call :: "bool \<Rightarrow> py_error + unit" where
  "engine_call ok = (if ok then Inr () else Inl ExecuteError)"

text \<open>
  The route is the selected line itself when the line layer has Z and M values, and
  otherwise the route \<open>CreateRoutes\<close> builds with the coordinate priority \<open>cp\<close>.
\<close>

datatype route = Reused_line | Created_route string

text \<open>
  The first \<open>try\<close> block of the loop of MGS_XSec_Boreholes.py: select the line
  (\<open>prepare_ok\<close>), and unless it has Z and M values, interpolate it, set QUAD, look the
  coordinate priority up and create the route.
\<close>

definition elevation_route :: "engine \<Rightarrow> bool \<Rightarrow> bool \<Rightarrow> xs_line \<Rightarrow> py_error + route" where
  "elevation_route eng hasZ hasM xline =
     (if \<not> prepare_ok eng then Inl ExecuteError
      else if hasZ \<and> hasM then Inr Reused_line
      else if \<not> interpolate_ok eng then Inl ExecuteError
      else
        let cpDir = QUAD_update (DIRECTION xline) None
        in case getCPValue cpDir of
             Inl e \<Rightarrow> Inl e
           | Inr cp \<Rightarrow>
               (if create_routes_ok eng then Inr (Created_route cp) else Inl ExecuteError))"

text \<open>
  \<open>try: body except: AddMsgAndPrint(err); raise SystemError\<close>: whatever the body
  raised, the message is logged and SystemError leaves the block.
\<close>

definition try_stage ::
  "string \<Rightarrow> py_error + 'a \<Rightarrow> string list \<Rightarrow> string list \<times> (py_error + 'a)" where
  "try_stage err body msgs =
     (case body of Inl e \<Rightarrow> (msgs @ [err], Inl SystemError) | Inr v \<Rightarrow> (msgs, Inr v))"

text \<open>
  The body of \<open>for Value in allValue\<close> in MGS_XSec_Boreholes.py. The log keeps the
  first message of the line and the error messages; the stages after the route are the
  engine's (they succeed or raise).
\<close>

definition borehole_line ::
  "string \<Rightarrow> engine \<Rightarrow> bool \<Rightarrow> bool \<Rightarrow> xs_line \<Rightarrow> string list
     \<Rightarrow> string list \<times> (py_error + unit)" where
  "borehole_line scratchDir eng hasZ hasM xline msgs =
     (let Value = XSEC xline;
          m0 = msgs @ [''*Analyzing '' @ Value @ ''...*'']
      in case try_stage (''ERROR 002: Failed to create the elevation route polyline for '' @ Value)
                (elevation_route eng hasZ hasM xline) m0 of
           (m1, Inl e) \<Rightarrow> (m1, Inl e)
         | (m1, Inr zm_line) \<Rightarrow>
        (case try_stage (''ERROR 003: Failed to create the boreholes for '' @ Value)
                (engine_call (sticks_ok eng)) m1 of
           (m2, Inl e) \<Rightarrow> (m2, Inl e)
         | (m2, Inr u) \<Rightarrow>
        (case try_stage (''ERROR 004: Failed to create lithology sticks for '' @ Value)
                (engine_call (lithology_ok eng)) m2 of
           (m3, Inl e) \<Rightarrow> (m3, Inl e)
         | (m3, Inr u) \<Rightarrow>
        (case try_stage (''ERROR 005: Failed to create screen sticks for '' @ Value)
                (engine_call (screens_ok eng)) m3 of
           (m4, Inl e) \<Rightarrow> (m4, Inl e)
         | (m4, Inr u) \<Rightarrow>
            try_stage (''ERROR 006: Failed to clean up '' @ scratchDir)
                (engine_call (cleanup_ok eng)) m4))))"

text \<open>
  The loop over the traverse lines (\<open>allValue\<close>, one line per name). Nothing catches the
  SystemError of a line: it ends the loop and the script.
\<close>

fun borehole_run ::
  "string \<Rightarrow> (string \<Rightarrow> engine) \<Rightarrow> bool \<Rightarrow> bool \<Rightarrow> xs_line list \<Rightarrow> string list
     \<Rightarrow> string list \<times> (py_error + unit)" where
  "borehole_run scratchDir eng hasZ hasM [] msgs = (msgs, Inr ())"
| "borehole_run scratchDir eng hasZ hasM (xline # xlines) msgs =
     (case borehole_line scratchDir (eng (XSEC xline)) hasZ hasM xline msgs of
        (msgs1, Inl e) \<Rightarrow> (msgs1, Inl e)
      | (msgs1, Inr u) \<Rightarrow> borehole_run scratchDir eng hasZ hasM xlines msgs1)"

section \<open>MGS_XSec_SegmentProfile.py: surface profiles\<close>

subsection \<open>moveLength\<close>

text \<open>
  The loop \<open>for geometry in geometries\<close> of the bedrock branch, with \<open>moveLength\<close> as
  the accumulator: a piece counts when the profile is offset and the piece touches the
  origin end of the line.
\<close>

fun moveLength_bdrk :: "string option \<Rightarrow> extent \<Rightarrow> extent \<Rightarrow> geometry list \<Rightarrow> real \<Rightarrow> real" where
  "moveLength_bdrk cpDir prof main [] moveLength = moveLength"
| "moveLength_bdrk cpDir prof main (g # gs) moveLength =
     moveLength_bdrk cpDir prof main gs
       (if cpDir = Some ''Northwest'' \<or> cpDir = Some ''Southwest''
        then (if XMin prof > XMin main \<and> XMin (g_extent g) = XMin main
              then moveLength + g_length g else moveLength)
        else (if XMax prof < XMax main \<and> XMax (g_extent g) = XMax main
              then moveLength + g_length g else moveLength))"

text \<open>The same loop in the groundwater branch: the two conditions are joined by \<open>or\<close>.\<close>

fun moveLength_gwl :: "string option \<Rightarrow> extent \<Rightarrow> extent \<Rightarrow> geometry list \<Rightarrow> real \<Rightarrow> real" where
  "moveLength_gwl cpDir prof main [] moveLength = moveLength"
| "moveLength_gwl cpDir prof main (g # gs) moveLength =
     moveLength_gwl cpDir prof main gs
       (if cpDir = Some ''Northwest'' \<or> cpDir = Some ''Southwest''
        then (if XMin prof > XMin main \<or> XMin (g_extent g) = XMin main
              then moveLength + g_length g else moveLength)
        else (if XMax prof < XMax main \<or> XMax (g_extent g) = XMax main
              then moveLength + g_length g else moveLength))"

text \<open>
  A line from 0 to 100 under a surface that covers 10 to 90: the profile starts at 10,
  and the pieces outside the surface are the first and the last ten metres.
\<close>

definition gap_prof :: extent where
  "gap_prof = \<lparr>XMin = 10, XMax = 90\<rparr>"

definition gap_main :: extent where
  "gap_main = \<lparr>XMin = 0, XMax = 100\<rparr>"

definition gap_pieces :: "geometry list" where
  "gap_pieces = [\<lparr>g_extent = \<lparr>XMin = 0, XMax = 10\<rparr>, g_length = 10\<rparr>,
                 \<lparr>g_extent = \<lparr>XMin = 90, XMax = 100\<rparr>, g_length = 10\<rparr>]"

subsection \<open>The bedrock loop\<close>

record profile =
  zm_line :: route
  moveLength :: "real option"

text \<open>
  The first \<open>try\<close> block of the bedrock loop: the route as above, then the pieces of
  the line outside the surface (\<open>erase_ok\<close>) and \<open>moveLength\<close>. With Z and M values
  on the line layer \<open>moveLength\<close> is never assigned.
\<close>

definition bedrock_profile :: "engine \<Rightarrow> bool \<Rightarrow> bool \<Rightarrow> xs_line \<Rightarrow> py_error + profile" where
  "bedrock_profile eng hasZ hasM xline =
     (if \<not> prepare_ok eng then Inl ExecuteError
      else if hasZ \<and> hasM then Inr \<lparr>zm_line = Reused_line, moveLength = None\<rparr>
      else if \<not> interpolate_ok eng then Inl ExecuteError
      else
        let cpDir = QUAD_update (DIRECTION xline) None
        in case getCPValue cpDir of
             Inl e \<Rightarrow> Inl e
           | Inr cp \<Rightarrow>
               (if \<not> create_routes_ok eng then Inl ExecuteError
                else if \<not> erase_ok eng then Inl ExecuteError
                else Inr \<lparr>zm_line = Created_route cp,
                          moveLength = Some (moveLength_bdrk cpDir (profileAlign eng)
                                               (mainLineAlign eng) (geometries eng) 0)\<rparr>))"

text \<open>
  The third \<open>try\<close> block ends in \<open>plan2side\<close>, which reads the global
  \<open>moveLength\<close>.
\<close>

definition segment_profile :: "engine \<Rightarrow> profile \<Rightarrow> py_error + unit" where
  "segment_profile eng prof =
     (if \<not> segment_ok eng then Inl ExecuteError
      else case moveLength prof of None \<Rightarrow> Inl NameError | Some ml \<Rightarrow> Inr ())"

text \<open>
  The body of \<open>for Value in allValue\<close> of the bedrock part (a bedrock surface is
  given). The message of the confidence stage names the surface, not the line.
\<close>

definition bedrock_line ::
  "string \<Rightarrow> string \<Rightarrow> engine \<Rightarrow> bool \<Rightarrow> bool \<Rightarrow> xs_line \<Rightarrow> string list
     \<Rightarrow> string list \<times> (py_error + unit)" where
  "bedrock_line scratchDir bdrkDEM eng hasZ hasM xline msgs =
     (let Value = XSEC xline;
          m0 = msgs @ [''*Analyzing '' @ Value @ ''...*'']
      in case try_stage (''ERROR 009: Failed to create bedrock surface for '' @ Value)
                (bedrock_profile eng hasZ hasM xline) m0 of
           (m1, Inl e) \<Rightarrow> (m1, Inl e)
         | (m1, Inr prof) \<Rightarrow>
        (case try_stage (''ERROR 010: Failed to create confidence zone for '' @ bdrkDEM)
                (engine_call (confidence_ok eng)) m1 of
           (m2, Inl e) \<Rightarrow> (m2, Inl e)
         | (m2, Inr u) \<Rightarrow>
        (case try_stage ''ERROR 011: Failed to segment the bedrock profile.''
                (segment_profile eng prof) m2 of
           (m3, Inl e) \<Rightarrow> (m3, Inl e)
         | (m3, Inr u) \<Rightarrow>
            try_stage (''ERROR 012: Failed to clean up '' @ scratchDir)
                (engine_call (cleanup_ok eng)) m3)))"

fun bedrock_run ::
  "string \<Rightarrow> string \<Rightarrow> (string \<Rightarrow> engine) \<Rightarrow> bool \<Rightarrow> bool \<Rightarrow> xs_line list \<Rightarrow> string list
     \<Rightarrow> string list \<times> (py_error + unit)" where
  "bedrock_run scratchDir bdrkDEM eng hasZ hasM [] msgs = (msgs, Inr ())"
| "bedrock_run scratchDir bdrkDEM eng hasZ hasM (xline # xlines) msgs =
     (case bedrock_line scratchDir bdrkDEM (eng (XSEC xline)) hasZ hasM xline msgs of
        (msgs1, Inl e) \<Rightarrow> (msgs1, Inl e)
      | (msgs1, Inr u) \<Rightarrow> bedrock_run scratchDir bdrkDEM eng hasZ hasM xlines msgs1)"

text \<open>
  An engine that succeeds everywhere, one whose \<open>InterpolateShape\<close> fails on line A,
  and one whose confidence stage fails on line A.
\<close>

definition good_engine :: engine where
  "good_engine =
     \<lparr>prepare_ok = True, interpolate_ok = True, create_routes_ok = True, erase_ok = True,
      profileAlign = gap_prof, mainLineAlign = gap_main, geometries = gap_pieces,
      sticks_ok = True, lithology_ok = True, screens_ok = True, confidence_ok = True,
      segment_ok = True, cleanup_ok = True\<rparr>"

definition fails_on_A :: "string \<Rightarrow> engine" where
  "fails_on_A Value =
     (if Value = ''A'' then good_engine\<lparr>interpolate_ok := False\<rparr> else good_engine)"

definition confidence_fails_on_A :: "string \<Rightarrow> engine" where
  "confidence_fails_on_A Value =
     (if Value = ''A'' then good_engine\<lparr>confidence_ok := False\<rparr> else good_engine)"

definition always_good :: "string \<Rightarrow> engine" where
  "always_good Value = good_engine"

definition line_A :: xs_line where
  "line_A = \<lparr>XSEC = ''A'', DIRECTION = Some ''W-E''\<rparr>"

definition line_B :: xs_line where
  "line_B = \<lparr>XSEC = ''B'', DIRECTION = Some ''S-N''\<rparr>"

text \<open>A line whose direction is none of the eight codes.\<close>

definition line_C :: xs_line where
  "line_C = \<lparr>XSEC = ''C'', DIRECTION = Some ''E-N''\<rparr>"

subsection \<open>The confidence zone\<close>

text \<open>
  A row of the union of the surface's footprint with the borehole buffer, made with
  \<open>ONLY_FID\<close>: the feature id of the footprint and of the buffer the piece lies in,
  \<open>-1\<close> for none. Footprint and buffer are one feature each, with id 1. The field
  CONFIDENCE is new.
\<close>

record union_row =
  FID_extent :: int
  FID_buffer :: int
  CONFIDENCE :: "string option"

text \<open>
  The body of the update cursor: three \<open>if\<close> statements in a row. \<open>None\<close> is a row
  deleted from the table.
\<close>

definition confidence_row :: "union_row \<Rightarrow> union_row option" where
  "confidence_row row =
     (let deleted = (FID_extent row = - 1);
          row1 = (if FID_extent row = 1 \<and> FID_buffer row = - 1
                  then row\<lparr>CONFIDENCE := Some ''INFERRED''\<rparr> else row);
          row2 = (if FID_extent row1 = 1 \<and> FID_buffer row1 = 1
                  then row1\<lparr>CONFIDENCE := Some ''CONFIDENT''\<rparr> else row1)
      in if deleted then None else Some row2)"

definition confidence_cursor :: "(int \<times> int) list \<Rightarrow> union_row list" where
  "confidence_cursor union_fids =
     List.map_filter confidence_row
       (map (\<lambda>(fe, fb). \<lparr>FID_extent = fe, FID_buffer = fb, CONFIDENCE = None\<rparr>) union_fids)"

text \<open>The bedrock and the groundwater branch run the same cursor on their unions.\<close>

definition bdrkConfidence :: "(int \<times> int) list \<Rightarrow> union_row list" where
  "bdrkConfidence unionBDRK = confidence_cursor unionBDRK"

definition confidenceZone :: "(int \<times> int) list \<Rightarrow> union_row list" where
  "confidenceZone unionWW = confidence_cursor unionWW"

section \<open>MGS_XSec_GridLines.py: the distance ticks\<close>

text \<open>
  Python 3's \<open>round(x)\<close> of a float: the nearest integer, and the even one of the two
  when \<open>x\<close> lies halfway between them.
\<close>

definition py_round :: "real \<Rightarrow> int" where
  "py_round x =
     (let f = \<lfloor>x\<rfloor>; d = x - of_int f
      in if d < 1 / 2 then f else if 1 / 2 < d then f + 1 else if even f then f else f + 1)"

definition round2int :: "real \<Rightarrow> real \<Rightarrow> py_error + real" where
  "round2int x base =
     (if base = 0 then Inl ZeroDivisionError else Inr (base * of_int (py_round (x / base))))"

text \<open>\<open>a // b\<close> on floats with \<open>b\<close> a non-zero constant.\<close>

definition floordiv :: "real \<Rightarrow> real \<Rightarrow> real" where
  "floordiv a b = of_int \<lfloor>a / b\<rfloor>"

text \<open>\<open>np.arange(start, stop, step)\<close>: \<open>ceil((stop - start) / step)\<close> values from \<open>start\<close>.\<close>

definition np_arange :: "real \<Rightarrow> real \<Rightarrow> real \<Rightarrow> real list" where
  "np_arange start stop step =
     map (\<lambda>i. start + of_nat i * step) [0 ..< nat \<lceil>(stop - start) / step\<rceil>]"

text \<open>
  One branch of the \<open>if xUnits == ...\<close> chain: \<open>lo\<close> and \<open>hi\<close> are the values
  rounded for the first and the last tick, \<open>bound\<close> the length the last tick is compared
  with.
\<close>

definition dist_ticks :: "real \<Rightarrow> real \<Rightarrow> real \<Rightarrow> real \<Rightarrow> py_error + real list" where
  "dist_ticks lo hi bound xInt =
     (case round2int lo xInt of Inl e \<Rightarrow> Inl e | Inr distTickMin \<Rightarrow>
     (case round2int hi xInt of Inl e \<Rightarrow> Inl e | Inr distTickMax \<Rightarrow>
     (let newDistTickMax =
            (if distTickMax > bound then distTickMax - xInt
             else if distTickMax < bound then distTickMax
             else distTickMax)
      in Inr (np_arange distTickMin (newDistTickMax + 1) xInt))))"

text \<open>\<open>distList\<close> for one grid configuration; with another unit the name stays unbound.\<close>

definition distList :: "string \<Rightarrow> real \<Rightarrow> real \<Rightarrow> py_error + real list" where
  "distList xUnits Xmax xInt =
     (let Xmin = 0 in
      if xUnits = ''Meters'' then dist_ticks Xmin Xmax Xmax xInt
      else if xUnits = ''Kilometers'' then dist_ticks (Xmin / 1000) (Xmax / 1000) (Xmax / 1000) xInt
      else if xUnits = ''Feet''
        then dist_ticks (floordiv Xmin 0.3048) (floordiv Xmax 0.3048) (Xmax / 0.3048) xInt
      else if xUnits = ''Miles''
        then dist_ticks (floordiv Xmin 0.3048 / 5280) (floordiv Xmax 0.3048 / 5280)
               (Xmax / 0.3048 / 5280) xInt
      else Inl NameError)"

section \<open>Borehole sticks: proofs\<close>

lemma meters_vals_Inr:
  "meters_vals ve p i row = Inr v \<longleftrightarrow>
     (\<exists>e d a. zDEM row = Some e \<and> BOREH_DEPTH row = Some d \<and> LOC_ANGLE row = Some a \<and>
        v = \<lparr>attrs = row, SHAPE = [(shape_M row, e * ve), (shape_M row, (e - d) * ve)],
             LocalXSEC_Azimuth = cartesianToGeographic a, DistFromSection = Distance row,
             stick_id = p @ str_nat i\<rparr>)"
  by (auto simp: meters_vals_def py_float_def Let_def split: option.splits)

lemma feet_vals_Inr:
  "feet_vals ve p i row = Inr v \<longleftrightarrow>
     (\<exists>e d a. zDEM row = Some e \<and> BOREH_DEPTH row = Some d \<and> LOC_ANGLE row = Some a \<and>
        v = \<lparr>attrs = row,
             SHAPE = [(shape_M row, e * 0.3048 * ve),
                      (shape_M row, (e * 0.3048 - d * 0.3048) * ve)],
             LocalXSEC_Azimuth = cartesianToGeographic a, DistFromSection = Distance row,
             stick_id = p @ str_nat i\<rparr>)"
  by (auto simp: feet_vals_def py_float_def Let_def split: option.splits)

lemma boreholes_row_out:
  assumes "boreholes_row elevUnits ve id_pref ins_ok row i = Inr (i', out, msgs)"
    and "s \<in> set out"
  shows "elevUnits = ''Meters'' \<and> meters_vals ve id_pref (i + 1) row = Inr s
          \<or> elevUnits = ''Feet'' \<and> feet_vals ve id_pref (i + 1) row = Inr s"
  using assms
  by (auto simp: boreholes_row_def insertRow_def split: if_splits sum.splits prod.splits)

text \<open>Every stick the loop writes is the row one of the two blocks built from a located row.\<close>

lemma boreholes_loop_emitted:
  assumes "boreholes_loop elevUnits ve id_pref ins_ok rows i = Inr (sticks, msgs)"
    and "s \<in> set sticks"
  shows "\<exists>row \<in> set rows. \<exists>j.
           elevUnits = ''Meters'' \<and> meters_vals ve id_pref j row = Inr s
           \<or> elevUnits = ''Feet'' \<and> feet_vals ve id_pref j row = Inr s"
  using assms
proof (induction rows arbitrary: i sticks msgs)
  case Nil
  then show ?case by simp
next
  case (Cons row rows)
  from Cons.prems(1) obtain i' out m1 st2 m2 where
    r: "boreholes_row elevUnits ve id_pref ins_ok row i = Inr (i', out, m1)"
    and l: "boreholes_loop elevUnits ve id_pref ins_ok rows i' = Inr (st2, m2)"
    and e: "sticks = out @ st2"
    by (auto split: sum.splits prod.splits)
  from Cons.prems(2) e consider "s \<in> set out" | "s \<in> set st2" by auto
  then show ?case
  proof cases
    case 1
    from boreholes_row_out[OF r 1] show ?thesis by auto
  next
    case 2
    from Cons.IH[OF l 2] show ?thesis by auto
  qed
qed

lemma boreholes_emitted:
  assumes "boreholes Value elevUnits ve ins_ok rows = Inr (sticks, msgs)"
    and "s \<in> set sticks"
  shows "\<exists>e d a. zDEM (attrs s) = Some e \<and> BOREH_DEPTH (attrs s) = Some d
           \<and> LOC_ANGLE (attrs s) = Some a
           \<and> LocalXSEC_Azimuth s = cartesianToGeographic a
           \<and> (SHAPE s = [(shape_M (attrs s), e * ve), (shape_M (attrs s), (e - d) * ve)]
              \<or> SHAPE s = [(shape_M (attrs s), e * 0.3048 * ve),
                            (shape_M (attrs s), (e * 0.3048 - d * 0.3048) * ve)])"
proof -
  from assms(1) have
    "boreholes_loop elevUnits ve (filter is_upper_alpha (Value @ ''_bhLines'')) ins_ok rows 0
       = Inr (sticks, msgs)"
    by (simp add: boreholes_def add_id_def)
  from boreholes_loop_emitted[OF this assms(2)] obtain row j where
    "meters_vals ve (filter is_upper_alpha (Value @ ''_bhLines'')) j row = Inr s
     \<or> feet_vals ve (filter is_upper_alpha (Value @ ''_bhLines'')) j row = Inr s"
    by blast
  then show ?thesis
  proof
    assume "meters_vals ve (filter is_upper_alpha (Value @ ''_bhLines'')) j row = Inr s"
    then obtain e d a where
      "zDEM row = Some e" "BOREH_DEPTH row = Some d" "LOC_ANGLE row = Some a"
      "s = \<lparr>attrs = row, SHAPE = [(shape_M row, e * ve), (shape_M row, (e - d) * ve)],
             LocalXSEC_Azimuth = cartesianToGeographic a, DistFromSection = Distance row,
             stick_id = filter is_upper_alpha (Value @ ''_bhLines'') @ str_nat j\<rparr>"
      unfolding meters_vals_Inr by blast
    then show ?thesis by simp
  next
    assume "feet_vals ve (filter is_upper_alpha (Value @ ''_bhLines'')) j row = Inr s"
    then obtain e d a where
      "zDEM row = Some e" "BOREH_DEPTH row = Some d" "LOC_ANGLE row = Some a"
      "s = \<lparr>attrs = row,
             SHAPE = [(shape_M row, e * 0.3048 * ve),
                      (shape_M row, (e * 0.3048 - d * 0.3048) * ve)],
             LocalXSEC_Azimuth = cartesianToGeographic a, DistFromSection = Distance row,
             stick_id = filter is_upper_alpha (Value @ ''_bhLines'') @ str_nat j\<rparr>"
      unfolding feet_vals_Inr by blast
    then show ?thesis by simp
  qed
qed

lemma scaled_drop: "0 < ve \<Longrightarrow> 0 \<le> d \<Longrightarrow> (e - d) * ve \<le> e * (ve::real)"
  by (simp add: mult_right_mono)

lemma example_run:
  "boreholes ''A'' ''Feet'' 1 accept_all [example_row 7 ''w1'' 500 500 100 45]
     = Inr ([example_stick], [])"
  by (simp add: boreholes_def add_id_def is_upper_alpha_def boreholes_row_def feet_vals_def
      py_float_def insertRow_def example_row_def example_stick_def str_nat.simps digit_char_def
      cartesianToGeographic_def accept_all_def Let_def)

text \<open>
  Claim C8. For every located borehole whose depth is non-negative, with a positive
  vertical exaggeration, the stick that \<open>boreholes\<close> emits has its top at or above its
  bottom, whatever the elevation units (sticks are emitted for Meters and for Feet).
\<close>

theorem stick_top_ge_bottom:
  assumes "0 < ve"
    and "boreholes Value elevUnits ve ins_ok rows = Inr (sticks, msgs)"
    and "s \<in> set sticks"
    and "BOREH_DEPTH (attrs s) = Some d"
    and "0 \<le> d"
  shows "top_ge_bottom s"
proof -
  from boreholes_emitted[OF assms(2,3)] assms(4) obtain e where
    v: "SHAPE s = [(shape_M (attrs s), e * ve), (shape_M (attrs s), (e - d) * ve)]
        \<or> SHAPE s = [(shape_M (attrs s), e * 0.3048 * ve),
                      (shape_M (attrs s), (e * 0.3048 - d * 0.3048) * ve)]"
    by auto
  from v show ?thesis
  proof
    assume "SHAPE s = [(shape_M (attrs s), e * ve), (shape_M (attrs s), (e - d) * ve)]"
    then show ?thesis
      using scaled_drop[OF assms(1,5)] by (simp add: top_ge_bottom_def)
  next
    assume "SHAPE s = [(shape_M (attrs s), e * 0.3048 * ve),
                       (shape_M (attrs s), (e * 0.3048 - d * 0.3048) * ve)]"
    moreover have "0 \<le> d * 0.3048" using assms(5) by simp
    ultimately show ?thesis
      using scaled_drop[OF assms(1), of "d * 0.3048" "e * 0.3048"]
      by (simp add: top_ge_bottom_def)
  qed
qed

theorem stick_top_ge_bottom_witness:
  "boreholes ''A'' ''Feet'' 1 accept_all [example_row 7 ''w1'' 500 500 100 45]
     = Inr ([example_stick], [])
   \<and> BOREH_DEPTH (attrs example_stick) = Some 100
   \<and> top_ge_bottom example_stick"
proof -
  have h1: "(0::real) < 1" by simp
  have h3: "example_stick \<in> set [example_stick]" by simp
  have h4: "BOREH_DEPTH (attrs example_stick) = Some 100"
    by (simp add: example_stick_def example_row_def)
  have h5: "(0::real) \<le> 100" by simp
  from stick_top_ge_bottom[OF h1 example_run h3 h4 h5] example_run h4 show ?thesis by simp
qed

text \<open>
  Claim C3, the example as stated: with feet, a surface elevation of 500, a depth of 100
  and no exaggeration the stick does not run from 500 to 400. The feet block multiplies
  by 0.3048 first, so it runs from 152.4 to 121.92.
\<close>

theorem feet_example_counterexample:
  "stick_shapes (boreholes ''A'' ''Feet'' 1 accept_all [example_row 7 ''w1'' 500 500 100 45])
     = [ [(500, 152.4), (500, 121.92)] ]
   \<and> stick_shapes (boreholes ''A'' ''Feet'' 1 accept_all [example_row 7 ''w1'' 500 500 100 45])
     \<noteq> [ [(500, 500), (500, 400)] ]"
  by (simp add: example_run stick_shapes_def example_stick_def)

text \<open>
  Claim C3, amended. The stick of a borehole with surface elevation \<open>e\<close> and depth
  \<open>d\<close> runs, at the borehole's measure, from \<open>e * ve\<close> to \<open>(e - d) * ve\<close> when the
  units are Meters (no conversion), and from \<open>e * 0.3048 * ve\<close> to
  \<open>(e * 0.3048 - d * 0.3048) * ve\<close> when they are Feet; for Feet, 500, 100 and
  \<open>ve = 1\<close> that is from 152.4 to 121.92.
\<close>

theorem stick_vertices:
  assumes "zDEM row = Some e" and "BOREH_DEPTH row = Some d" and "LOC_ANGLE row = Some a"
  shows "stick_shapes (boreholes Value ''Meters'' ve accept_all [row])
           = [ [(shape_M row, e * ve), (shape_M row, (e - d) * ve)] ]
       \<and> stick_shapes (boreholes Value ''Feet'' ve accept_all [row])
           = [ [(shape_M row, (e * 0.3048) * ve), (shape_M row, (e * 0.3048 - d * 0.3048) * ve)] ]
       \<and> (e = 500 \<and> d = 100 \<and> ve = 1 \<longrightarrow>
            stick_shapes (boreholes Value ''Feet'' ve accept_all [row])
              = [ [(shape_M row, 152.4), (shape_M row, 121.92)] ])"
  using assms
  by (simp add: boreholes_def add_id_def boreholes_row_def feet_vals_def meters_vals_def
      py_float_def insertRow_def stick_shapes_def accept_all_def Let_def)

theorem stick_vertices_witness:
  "stick_shapes (boreholes ''A'' ''Meters'' 2 accept_all [example_row 7 ''w1'' 500 500 100 45])
           = [ [(500, 1000), (500, 800)] ]
   \<and> stick_shapes (boreholes ''A'' ''Feet'' 1 accept_all [example_row 7 ''w1'' 500 500 100 45])
           = [ [(500, 152.4), (500, 121.92)] ]"
proof -
  have h: "zDEM (example_row 7 ''w1'' 500 500 100 45) = Some 500"
    "BOREH_DEPTH (example_row 7 ''w1'' 500 500 100 45) = Some 100"
    "LOC_ANGLE (example_row 7 ''w1'' 500 500 100 45) = Some 45"
    "shape_M (example_row 7 ''w1'' 500 500 100 45) = 500"
    by (simp_all add: example_row_def)
  from stick_vertices[OF h(1,2,3), of "''A''" 2] stick_vertices[OF h(1,2,3), of "''A''" 1]
  show ?thesis unfolding h(4) by simp
qed

text \<open>
  Claim C10, as stated: the value returned is not always in \<open>[0, 360)\<close>. For an angle
  of 300 the function returns \<open>-30\<close>.
\<close>

theorem azimuth_counterexample:
  "cartesianToGeographic 300 = Some (- 30) \<and> \<not> (0 \<le> (- 30 :: real) \<and> (- 30 :: real) < 360)"
  by (simp add: cartesianToGeographic_def)

text \<open>
  Claim C10, amended. \<open>cartesianToGeographic\<close> returns a number exactly when
  \<open>-90 - angle < 0\<close>, that is when the angle is above \<open>-90\<close>; the number is
  \<open>-90 - angle + 360\<close>, which is below 360, and is at least 0 exactly when the angle is
  at most 270. For an angle of at most \<open>-90\<close> it returns \<open>None\<close>. What it returns for
  the located angle of a borehole is stored as the stick's \<open>LocalXSEC_Azimuth\<close>.
\<close>

theorem azimuth_value:
  "(cartesianToGeographic angle \<noteq> None \<longleftrightarrow> - 90 - angle < 0)
   \<and> (- 90 - angle < 0 \<longleftrightarrow> - 90 < angle)
   \<and> (- 90 < angle \<longrightarrow>
        cartesianToGeographic angle = Some (- 90 - angle + 360)
        \<and> - 90 - angle + 360 < 360
        \<and> (0 \<le> - 90 - angle + 360 \<longleftrightarrow> angle \<le> 270))
   \<and> (angle \<le> - 90 \<longrightarrow> cartesianToGeographic angle = None)
   \<and> (boreholes Value elevUnits ve ins_ok rows = Inr (sticks, msgs) \<and> s \<in> set sticks
        \<and> LOC_ANGLE (attrs s) = Some angle
        \<longrightarrow> LocalXSEC_Azimuth s = cartesianToGeographic angle)"
proof -
  have stored: "LocalXSEC_Azimuth s = cartesianToGeographic angle"
    if b: "boreholes Value elevUnits ve ins_ok rows = Inr (sticks, msgs)"
      and s: "s \<in> set sticks" and a: "LOC_ANGLE (attrs s) = Some angle"
    using boreholes_emitted[OF b s] a by auto
  show ?thesis
    using stored by (auto simp: cartesianToGeographic_def Let_def)
qed

theorem azimuth_value_witness:
  "cartesianToGeographic 45 = Some 225 \<and> cartesianToGeographic (- 100) = None
   \<and> cartesianToGeographic 300 = Some (- 30)
   \<and> LocalXSEC_Azimuth example_stick = cartesianToGeographic 45"
proof -
  have a: "LOC_ANGLE (attrs example_stick) = Some 45"
    by (simp add: example_stick_def example_row_def)
  have m: "example_stick \<in> set [example_stick]" by simp
  from azimuth_value[of 45 "''A''" "''Feet''" 1 accept_all
      "[example_row 7 ''w1'' 500 500 100 45]" "[example_stick]" "[]" example_stick]
    azimuth_value[of "- 100"] azimuth_value[of 300] example_run a m
  show ?thesis by simp
qed

section \<open>Duplicate removal: proofs\<close>

text \<open>
  Whenever the event table has more rows than there are points, the result is its first
  row alone.
\<close>

lemma delete_identical_const:
  assumes "\<forall>r \<in> set rs. field r = k"
  shows "delete_identical seen field rs = (if k \<in> set seen then [] else take 1 rs)"
  using assms
proof (induction rs arbitrary: seen)
  case Nil
  then show ?case by simp
next
  case (Cons r rs)
  from Cons.prems have "field r = k" and "\<forall>r \<in> set rs. field r = k" by simp_all
  with Cons.IH[of seen] Cons.IH[of "k # seen"] show ?case by simp
qed

lemma located_all_null:
  "\<forall>r \<in> set (LocateFeaturesAlongRoutes locate (AddField_xDupDetect pts)). xDupDetect r = None"
  by (auto simp: LocateFeaturesAlongRoutes_def AddField_xDupDetect_def)

lemma dedup_leaves_first_row:
  assumes "length (LocateFeaturesAlongRoutes locate (AddField_xDupDetect pts)) > length pts"
  shows "locateEvents_Table True locate False pts =
           Inr (take 1 (DeleteField_xDupDetect
                  (LocateFeaturesAlongRoutes locate (AddField_xDupDetect pts))))"
  using assms delete_identical_const[OF located_all_null, of "[]" locate pts]
  by (simp add: locateEvents_Table_def DeleteIdentical_def DeleteField_xDupDetect_def Let_def
      AddField_xDupDetect_def take_map)

text \<open>
  Claim C2. Two boreholes A and B, A located twice: three event rows for two points, so
  \<open>DeleteIdentical\<close> runs on \<open>xDupDetect\<close>. That field is NULL in every row, all
  rows are identical on it, and a single row is left: the event of B is removed although
  no other row belongs to B.
\<close>

theorem dedup_keeps_one_row:
  "locateEvents_Table True locate_twice False [''A'', ''B''] = Inr [(''A'', 10, 1)]"
  by (simp add: locateEvents_Table_def AddField_xDupDetect_def LocateFeaturesAlongRoutes_def
      DeleteIdentical_def DeleteField_xDupDetect_def locate_twice_def Let_def)

section \<open>The elevation route and the loops: proofs\<close>

lemma QUAD_unset:
  assumes "dir \<notin> {Some ''W-E'', Some ''NW-SE'', Some ''E-W'', Some ''SW-NE'', Some ''S-N'',
                    Some ''N-S'', Some ''NE-SW'', Some ''SE-NW''}"
  shows "QUAD_update dir None = None"
  using assms by (simp add: QUAD_update_def)

text \<open>
  Claim C7, as stated: a traverse line whose direction is none of the eight codes does
  not always make path construction raise. On a line layer that has Z and M values the
  route block reuses the selected line: no quadrant is looked up and nothing is raised
  or logged there.
\<close>

theorem reused_line_counterexample:
  "DIRECTION line_C = Some ''E-N''
   \<and> elevation_route good_engine True True line_C = Inr Reused_line
   \<and> try_stage ''ERROR 002: Failed to create the elevation route polyline for C''
        (elevation_route good_engine True True line_C) [''*Analyzing C...*'']
      = ([''*Analyzing C...*''], Inr Reused_line)"
  by (simp add: line_C_def elevation_route_def good_engine_def try_stage_def)

text \<open>
  Claim C7, amended. For a traverse line whose direction is none of the eight codes: on a
  line layer without both Z and M values (the case in which a route is built) QUAD stays
  NULL, \<open>getCPValue\<close> raises KeyError on it, the route block raises instead of
  returning a route (KeyError when the engine calls before it succeed), and the line
  ends with the message of ERROR 002 and SystemError; on a line layer with Z and M values
  the route block, when selecting the line succeeds, returns the line itself as the
  route, whatever the direction, and raises nothing.
\<close>

theorem unknown_direction_route:
  assumes "DIRECTION xline \<notin> {Some ''W-E'', Some ''NW-SE'', Some ''E-W'', Some ''SW-NE'',
             Some ''S-N'', Some ''N-S'', Some ''NE-SW'', Some ''SE-NW''}"
  shows "(\<not> (hasZ \<and> hasM) \<longrightarrow>
            QUAD_update (DIRECTION xline) None = None
          \<and> getCPValue (QUAD_update (DIRECTION xline) None) = Inl KeyError
          \<and> (\<exists>e. elevation_route eng hasZ hasM xline = Inl e)
          \<and> (prepare_ok eng \<and> interpolate_ok eng \<longrightarrow>
               elevation_route eng hasZ hasM xline = Inl KeyError)
          \<and> borehole_line scratchDir eng hasZ hasM xline msgs =
               (msgs @ [''*Analyzing '' @ XSEC xline @ ''...*'',
                        ''ERROR 002: Failed to create the elevation route polyline for ''
                          @ XSEC xline],
                Inl SystemError))
       \<and> (hasZ \<and> hasM \<and> prepare_ok eng \<longrightarrow>
            elevation_route eng hasZ hasM xline = Inr Reused_line
          \<and> try_stage (''ERROR 002: Failed to create the elevation route polyline for ''
                          @ XSEC xline)
               (elevation_route eng hasZ hasM xline) msgs = (msgs, Inr Reused_line))"
proof -
  have q: "QUAD_update (DIRECTION xline) None = None" by (rule QUAD_unset[OF assms])
  have g: "getCPValue (QUAD_update (DIRECTION xline) None) = Inl KeyError"
    by (simp add: q getCPValue_def)
  have e: "\<exists>e. elevation_route eng hasZ hasM xline = Inl e" if "\<not> (hasZ \<and> hasM)"
    using that by (auto simp: elevation_route_def g Let_def)
  have k: "prepare_ok eng \<and> interpolate_ok eng \<longrightarrow>
            elevation_route eng hasZ hasM xline = Inl KeyError" if "\<not> (hasZ \<and> hasM)"
    using that by (auto simp: elevation_route_def g Let_def)
  have b: "borehole_line scratchDir eng hasZ hasM xline msgs =
            (msgs @ [''*Analyzing '' @ XSEC xline @ ''...*'',
                     ''ERROR 002: Failed to create the elevation route polyline for ''
                       @ XSEC xline],
             Inl SystemError)" if n: "\<not> (hasZ \<and> hasM)"
  proof -
    from e[OF n] obtain err where "elevation_route eng hasZ hasM xline = Inl err" by blast
    then show ?thesis by (simp add: borehole_line_def try_stage_def Let_def)
  qed
  have r: "elevation_route eng hasZ hasM xline = Inr Reused_line"
    if "hasZ \<and> hasM \<and> prepare_ok eng"
    using that by (simp add: elevation_route_def)
  have t: "try_stage (''ERROR 002: Failed to create the elevation route polyline for ''
                        @ XSEC xline)
             (elevation_route eng hasZ hasM xline) msgs = (msgs, Inr Reused_line)"
    if "hasZ \<and> hasM \<and> prepare_ok eng"
    using r[OF that] by (simp add: try_stage_def)
  from q g e k b r t show ?thesis by blast
qed

theorem unknown_direction_route_witness:
  "QUAD_update (DIRECTION line_C) None = None
   \<and> elevation_route good_engine False False line_C = Inl KeyError
   \<and> borehole_line ''scratch.gdb'' good_engine False False line_C [] =
       ([''*Analyzing C...*'', ''ERROR 002: Failed to create the elevation route polyline for C''],
        Inl SystemError)
   \<and> elevation_route good_engine True True line_C = Inr Reused_line"
proof -
  have h1: "DIRECTION line_C \<notin> {Some ''W-E'', Some ''NW-SE'', Some ''E-W'', Some ''SW-NE'',
             Some ''S-N'', Some ''N-S'', Some ''NE-SW'', Some ''SE-NW''}"
    by (simp add: line_C_def)
  have g: "prepare_ok good_engine \<and> interpolate_ok good_engine" by (simp add: good_engine_def)
  have x: "XSEC line_C = ''C''" by (simp add: line_C_def)
  from unknown_direction_route[OF h1, of False False good_engine "''scratch.gdb''" "[]"]
    unknown_direction_route[OF h1, of True True good_engine "''scratch.gdb''" "[]"] g x
  show ?thesis by simp
qed

lemma borehole_run_append:
  "borehole_run sd eng hasZ hasM (pre @ rest) msgs0 =
     (case borehole_run sd eng hasZ hasM pre msgs0 of
        (m, Inl e) \<Rightarrow> (m, Inl e)
      | (m, Inr u) \<Rightarrow> borehole_run sd eng hasZ hasM rest m)"
  by (induction pre arbitrary: msgs0) (auto split: prod.splits sum.splits)

lemma bedrock_run_append:
  "bedrock_run sd dem eng hasZ hasM (pre @ rest) msgs0 =
     (case bedrock_run sd dem eng hasZ hasM pre msgs0 of
        (m, Inl e) \<Rightarrow> (m, Inl e)
      | (m, Inr u) \<Rightarrow> bedrock_run sd dem eng hasZ hasM rest m)"
  by (induction pre arbitrary: msgs0) (auto split: prod.splits sum.splits)

lemma line_simps:
  "XSEC line_A = ''A''" "XSEC line_B = ''B''"
  by (simp_all add: line_A_def line_B_def)

lemma A_route_fails:
  "elevation_route (fails_on_A ''A'') False False line_A = Inl ExecuteError"
  "bedrock_profile (fails_on_A ''A'') False False line_A = Inl ExecuteError"
  by (simp_all add: elevation_route_def bedrock_profile_def fails_on_A_def good_engine_def)

lemma A_confidence_fails:
  "bedrock_profile (confidence_fails_on_A ''A'') False False line_A =
     Inr \<lparr>zm_line = Created_route ''UPPER_LEFT'', moveLength = Some 10\<rparr>"
  "\<not> confidence_ok (confidence_fails_on_A ''A'')"
  by (simp_all add: bedrock_profile_def confidence_fails_on_A_def good_engine_def line_A_def
      QUAD_update_def getCPValue_def cpDict_def gap_prof_def gap_main_def gap_pieces_def Let_def)

text \<open>
  Claim C1, as stated: with two traverse lines A and B and an engine failure in the route
  of A, line B is not processed. The run ends with SystemError after the message of
  ERROR 002; with an engine that succeeds both lines are analysed.
\<close>

theorem next_line_counterexample:
  "borehole_run ''scratch.gdb'' fails_on_A False False [line_A, line_B] [] =
     ([''*Analyzing A...*'', ''ERROR 002: Failed to create the elevation route polyline for A''],
      Inl SystemError)
   \<and> ''*Analyzing B...*'' \<notin> set (fst (borehole_run ''scratch.gdb'' fails_on_A False False
                                         [line_A, line_B] []))
   \<and> borehole_run ''scratch.gdb'' always_good False False [line_A, line_B] [] =
     ([''*Analyzing A...*'', ''*Analyzing B...*''], Inr ())"
  by (simp add: borehole_line_def try_stage_def engine_call_def elevation_route_def
      fails_on_A_def always_good_def good_engine_def line_A_def line_B_def QUAD_update_def
      getCPValue_def cpDict_def Let_def)

text \<open>
  Claim C1, amended. When the lines before a traverse line were processed without error
  and the route (path) of that line fails, the run logs the message of ERROR 002 with the
  line's name and ends with SystemError, whatever lines follow: none of them is
  processed. The bedrock loop does the same with ERROR 009 when the surface of the line
  fails, and with ERROR 010, whose message names the surface and not the line, when its
  confidence zone fails.
\<close>

theorem failure_ends_run:
  "(borehole_run sd eng hasZ hasM pre msgs0 = (msgs1, Inr ())
      \<and> elevation_route (eng (XSEC xline)) hasZ hasM xline = Inl e
    \<longrightarrow> borehole_run sd eng hasZ hasM (pre @ xline # post) msgs0 =
          (msgs1 @ [''*Analyzing '' @ XSEC xline @ ''...*'',
                    ''ERROR 002: Failed to create the elevation route polyline for '' @ XSEC xline],
           Inl SystemError))
   \<and> (bedrock_run sd dem eng hasZ hasM pre msgs0 = (msgs1, Inr ())
      \<and> bedrock_profile (eng (XSEC xline)) hasZ hasM xline = Inl e
    \<longrightarrow> bedrock_run sd dem eng hasZ hasM (pre @ xline # post) msgs0 =
          (msgs1 @ [''*Analyzing '' @ XSEC xline @ ''...*'',
                    ''ERROR 009: Failed to create bedrock surface for '' @ XSEC xline],
           Inl SystemError))
   \<and> (bedrock_run sd dem eng hasZ hasM pre msgs0 = (msgs1, Inr ())
      \<and> bedrock_profile (eng (XSEC xline)) hasZ hasM xline = Inr prof
      \<and> \<not> confidence_ok (eng (XSEC xline))
    \<longrightarrow> bedrock_run sd dem eng hasZ hasM (pre @ xline # post) msgs0 =
          (msgs1 @ [''*Analyzing '' @ XSEC xline @ ''...*'',
                    ''ERROR 010: Failed to create confidence zone for '' @ dem],
           Inl SystemError))"
  by (simp add: borehole_run_append bedrock_run_append borehole_line_def bedrock_line_def
      try_stage_def engine_call_def Let_def)

theorem failure_ends_run_witness:
  "borehole_run ''scratch.gdb'' fails_on_A False False ([] @ line_A # [line_B]) [] =
     ([''*Analyzing A...*'', ''ERROR 002: Failed to create the elevation route polyline for A''],
      Inl SystemError)
   \<and> bedrock_run ''scratch.gdb'' ''bedrock.tif'' fails_on_A False False ([] @ line_A # [line_B]) [] =
     ([''*Analyzing A...*'', ''ERROR 009: Failed to create bedrock surface for A''],
      Inl SystemError)
   \<and> bedrock_run ''scratch.gdb'' ''bedrock.tif'' confidence_fails_on_A False False
        ([] @ line_A # [line_B]) [] =
     ([''*Analyzing A...*'', ''ERROR 010: Failed to create confidence zone for bedrock.tif''],
      Inl SystemError)"
proof -
  have p1: "borehole_run ''scratch.gdb'' fails_on_A False False [] [] = ([], Inr ())" by simp
  have p2: "bedrock_run ''scratch.gdb'' ''bedrock.tif'' fails_on_A False False [] [] = ([], Inr ())"
    by simp
  have p3: "bedrock_run ''scratch.gdb'' ''bedrock.tif'' confidence_fails_on_A False False [] []
      = ([], Inr ())" by simp
  from failure_ends_run[of "''scratch.gdb''" fails_on_A False False "[]" "[]" "[]" line_A
      ExecuteError "[line_B]" "''bedrock.tif''"]
    failure_ends_run[of "''scratch.gdb''" confidence_fails_on_A False False "[]" "[]" "[]" line_A
      ExecuteError "[line_B]" "''bedrock.tif''"
      "\<lparr>zm_line = Created_route ''UPPER_LEFT'', moveLength = Some 10\<rparr>"]
    p1 p2 p3 A_route_fails A_confidence_fails
  show ?thesis by (simp add: line_simps)
qed

section \<open>Surface profiles: proofs\<close>

text \<open>
  Claim C9. On the line from 0 to 100 under a surface from 10 to 90, with the origin in
  the north-west, the bedrock loop counts the piece at the origin end only and the
  groundwater loop counts both pieces: the two computations give 10 and 20.
\<close>

theorem moveLength_branches_differ:
  "moveLength_bdrk (Some ''Northwest'') gap_prof gap_main gap_pieces 0 = 10
   \<and> moveLength_gwl (Some ''Northwest'') gap_prof gap_main gap_pieces 0 = 20"
  by (simp add: gap_prof_def gap_main_def gap_pieces_def)

lemma confidence_row_cases:
  "confidence_row \<lparr>FID_extent = fe, FID_buffer = fb, CONFIDENCE = None\<rparr> =
     (if fe = - 1 then None
      else if fe = 1 \<and> fb = - 1
        then Some \<lparr>FID_extent = fe, FID_buffer = fb, CONFIDENCE = Some ''INFERRED''\<rparr>
      else if fe = 1 \<and> fb = 1
        then Some \<lparr>FID_extent = fe, FID_buffer = fb, CONFIDENCE = Some ''CONFIDENT''\<rparr>
      else Some \<lparr>FID_extent = fe, FID_buffer = fb, CONFIDENCE = None\<rparr>)"
  by (simp add: confidence_row_def Let_def)

lemma confidence_cursor_flags:
  assumes "\<forall>(fe, fb) \<in> set u. (fe = - 1 \<or> fe = 1) \<and> (fb = - 1 \<or> fb = 1)"
  shows "confidence_cursor u =
           map (\<lambda>(fe, fb). \<lparr>FID_extent = fe, FID_buffer = fb,
                  CONFIDENCE = Some (if fb = 1 then ''CONFIDENT'' else ''INFERRED'')\<rparr>)
             (filter (\<lambda>(fe, fb). fe \<noteq> - 1) u)"
  using assms
proof (induction u)
  case Nil
  then show ?case by (simp add: confidence_cursor_def List.map_filter_simps)
next
  case (Cons p u)
  obtain fe fb where p: "p = (fe, fb)" by (cases p)
  from Cons.prems p have f: "(fe = - 1 \<or> fe = 1) \<and> (fb = - 1 \<or> fb = 1)" by simp
  from Cons have ih: "confidence_cursor u =
           map (\<lambda>(fe, fb). \<lparr>FID_extent = fe, FID_buffer = fb,
                  CONFIDENCE = Some (if fb = 1 then ''CONFIDENT'' else ''INFERRED'')\<rparr>)
             (filter (\<lambda>(fe, fb). fe \<noteq> - 1) u)" by simp
  have "confidence_cursor (p # u) =
      (case confidence_row \<lparr>FID_extent = fe, FID_buffer = fb, CONFIDENCE = None\<rparr> of
         None \<Rightarrow> confidence_cursor u | Some r \<Rightarrow> r # confidence_cursor u)"
    unfolding confidence_cursor_def by (simp add: List.map_filter_simps p)
  with f ih show ?case
    by (auto simp: confidence_row_cases p)
qed

text \<open>
  Claim C5. On the union of the footprint with the buffer, whose rows carry \<open>-1\<close>
  (absent) or 1 (present) for each of the two, the cursor deletes the pieces absent from
  the footprint, sets INFERRED on those in the footprint and not in the buffer and
  CONFIDENT on those in both, and leaves nothing else: the table is the pieces of the
  footprint, each with one of the two values. The bedrock and the groundwater branch
  agree.
\<close>

theorem confidence_classes:
  assumes "\<forall>(fe, fb) \<in> set u. (fe = - 1 \<or> fe = 1) \<and> (fb = - 1 \<or> fb = 1)"
  shows "bdrkConfidence u =
           map (\<lambda>(fe, fb). \<lparr>FID_extent = fe, FID_buffer = fb,
                  CONFIDENCE = Some (if fb = 1 then ''CONFIDENT'' else ''INFERRED'')\<rparr>)
             (filter (\<lambda>(fe, fb). fe \<noteq> - 1) u)
       \<and> confidenceZone u = bdrkConfidence u
       \<and> confidence_row \<lparr>FID_extent = - 1, FID_buffer = fb, CONFIDENCE = None\<rparr> = None
       \<and> confidence_row \<lparr>FID_extent = 1, FID_buffer = - 1, CONFIDENCE = None\<rparr>
           = Some \<lparr>FID_extent = 1, FID_buffer = - 1, CONFIDENCE = Some ''INFERRED''\<rparr>
       \<and> confidence_row \<lparr>FID_extent = 1, FID_buffer = 1, CONFIDENCE = None\<rparr>
           = Some \<lparr>FID_extent = 1, FID_buffer = 1, CONFIDENCE = Some ''CONFIDENT''\<rparr>"
  using confidence_cursor_flags[OF assms]
  by (simp add: bdrkConfidence_def confidenceZone_def confidence_row_cases)

theorem confidence_classes_witness:
  "bdrkConfidence [(1, 1), (- 1, 1), (1, - 1)] =
     [\<lparr>FID_extent = 1, FID_buffer = 1, CONFIDENCE = Some ''CONFIDENT''\<rparr>,
      \<lparr>FID_extent = 1, FID_buffer = - 1, CONFIDENCE = Some ''INFERRED''\<rparr>]"
proof -
  have h: "\<forall>(fe, fb) \<in> set [(1, 1), (- 1, 1), (1, - 1 :: int)].
             (fe = - 1 \<or> fe = (1::int)) \<and> (fb = - 1 \<or> fb = 1)" by simp
  from confidence_classes[OF h] show ?thesis by simp
qed

section \<open>Distance ticks: proofs\<close>

lemma py_round_half: "py_round (of_int n + 1 / 2) = (if even n then n else n + 1)"
proof -
  have "\<lfloor>of_int n + (1 / 2 :: real)\<rfloor> = n" by (simp add: floor_unique)
  then show ?thesis by (simp add: py_round_def Let_def)
qed

text \<open>
  Claim C6, as stated: a half is not rounded away from zero. 25 with base 50 gives 0,
  not 50, and \<open>-25\<close> gives 0, not \<open>-50\<close>.
\<close>

theorem round2int_counterexample:
  "round2int 25 50 = Inr 0 \<and> round2int 25 50 \<noteq> Inr 50
   \<and> round2int (- 25) 50 = Inr 0 \<and> round2int (- 25) 50 \<noteq> Inr (- 50)"
  by (simp add: round2int_def py_round_def Let_def)

text \<open>
  Claim C6, amended. \<open>round2int\<close> computes \<open>base * round(x / base)\<close> with Python's
  rounding of halves to the even integer: for a positive base and \<open>x / base\<close> halfway
  between the integers \<open>n\<close> and \<open>n + 1\<close>, the result is the base times the even one
  of the two (25 with base 50 gives 0, \<open>-25\<close> gives 0, 75 gives 100).
\<close>

theorem round2int_half_even:
  assumes "0 < base" and "x / base = of_int n + 1 / 2"
  shows "round2int x base = Inr (base * of_int (if even n then n else n + 1))"
  using assms by (simp add: round2int_def py_round_half)

theorem round2int_half_even_witness:
  "round2int 25 50 = Inr 0 \<and> round2int (- 25) 50 = Inr 0 \<and> round2int 75 50 = Inr 100"
proof -
  have b: "(0::real) < 50" by simp
  have h0: "(25::real) / 50 = of_int 0 + 1 / 2" by simp
  have h1: "(- 25::real) / 50 = of_int (- 1) + 1 / 2" by simp
  have h2: "(75::real) / 50 = of_int 1 + 1 / 2" by simp
  from round2int_half_even[OF b h0] round2int_half_even[OF b h1] round2int_half_even[OF b h2]
  show ?thesis by simp
qed

lemma py_round_lower: "x - 1 / 2 \<le> of_int (py_round x)"
  unfolding py_round_def Let_def by (auto; linarith)

lemma py_round_upper: "of_int (py_round x) \<le> x + 1 / 2"
  unfolding py_round_def Let_def by (auto; linarith)

text \<open>
  The nearest multiple of the interval, lowered by one interval when it lies above the
  length, is the largest multiple that is not above the length.
\<close>

lemma nearest_to_floor:
  fixes xInt Xmax :: real and r :: int
  assumes "1 \<le> xInt"
    and lo: "Xmax / xInt - 1 / 2 \<le> of_int r" and hi: "of_int r \<le> Xmax / xInt + 1 / 2"
  shows "(if xInt * of_int r > Xmax then xInt * of_int r - xInt else xInt * of_int r)
           = xInt * of_int \<lfloor>Xmax / xInt\<rfloor>"
proof -
  have pos: "0 < xInt" using assms(1) by simp
  let ?q = "Xmax / xInt"
  show ?thesis
  proof (cases "xInt * of_int r > Xmax")
    case True
    then have "?q < of_int r" using pos by (simp add: pos_divide_less_eq mult.commute)
    with hi have "\<lfloor>?q\<rfloor> = r - 1" by (intro floor_unique) auto
    then have "(of_int r :: real) = of_int \<lfloor>?q\<rfloor> + 1" by simp
    then have "xInt * of_int r - xInt = xInt * of_int \<lfloor>?q\<rfloor>"
      by (simp add: distrib_left)
    with True show ?thesis by simp
  next
    case False
    then have "of_int r \<le> ?q" using pos by (simp add: pos_le_divide_eq mult.commute)
    with lo have "\<lfloor>?q\<rfloor> = r" by (intro floor_unique) auto
    with False show ?thesis by simp
  qed
qed

lemma last_tick_floor:
  assumes "1 \<le> xInt"
  shows "(if xInt * of_int (py_round (Xmax / xInt)) > Xmax
          then xInt * of_int (py_round (Xmax / xInt)) - xInt
          else xInt * of_int (py_round (Xmax / xInt)))
           = xInt * of_int \<lfloor>Xmax / xInt\<rfloor>"
  by (rule nearest_to_floor[OF assms py_round_lower py_round_upper])

lemma arange_ticks:
  assumes "1 \<le> xInt" and "0 \<le> k"
  shows "np_arange 0 (xInt * of_int k + 1) xInt = map (\<lambda>i. of_nat i * xInt) [0 ..< Suc (nat k)]"
proof -
  have pos: "0 < xInt" using assms(1) by simp
  have "(xInt * of_int k + 1) / xInt = of_int k + 1 / xInt"
    using pos by (simp add: field_simps)
  moreover have "\<lceil>of_int k + 1 / xInt\<rceil> = k + 1"
    using pos assms(1) by (intro ceiling_unique) (auto simp: field_simps)
  ultimately have "nat \<lceil>(xInt * of_int k + 1 - 0) / xInt\<rceil> = Suc (nat k)"
    using assms(2) by simp
  then show ?thesis unfolding np_arange_def by simp
qed

text \<open>
  Claim C4, as stated: for a length of 1234 and an interval of 500 metres the ticks are
  0, 500 and 1000. There is no tick at 1500, and the last tick is below the length.
\<close>

theorem dist_ticks_counterexample:
  "distList ''Meters'' 1234 500 = Inr [0, 500, 1000]
   \<and> distList ''Meters'' 1234 500 \<noteq> Inr [0, 500, 1000, 1500]
   \<and> \<not> (1234 \<le> last [0, 500, 1000 :: real])"
  by (simp add: distList_def dist_ticks_def round2int_def py_round_def np_arange_def
      upt_conv_Cons Let_def)

text \<open>
  Claim C4, amended. The distance ticks round inwards: for a length \<open>Xmax \<ge> 0\<close> and an
  interval of at least 1, in metres, the ticks are the multiples of the interval from 0
  to the largest one not above \<open>Xmax\<close>, so the last tick is at most \<open>Xmax\<close> and less
  than one interval below it; for 1234 and 500 they are 0, 500, 1000.
\<close>

theorem dist_ticks_inward:
  assumes "0 \<le> Xmax" and "1 \<le> xInt"
  shows "distList ''Meters'' Xmax xInt
           = Inr (map (\<lambda>i. of_nat i * xInt) [0 ..< Suc (nat \<lfloor>Xmax / xInt\<rfloor>)])
       \<and> of_int \<lfloor>Xmax / xInt\<rfloor> * xInt \<le> Xmax
       \<and> Xmax < of_int \<lfloor>Xmax / xInt\<rfloor> * xInt + xInt"
proof -
  have pos: "0 < xInt" using assms(2) by simp
  have k: "0 \<le> \<lfloor>Xmax / xInt\<rfloor>" using assms(1) pos by simp
  have z: "py_round (0::real) = 0" by (simp add: py_round_def)
  have "distList ''Meters'' Xmax xInt =
      Inr (np_arange 0
        ((if xInt * of_int (py_round (Xmax / xInt)) > Xmax
          then xInt * of_int (py_round (Xmax / xInt)) - xInt
          else xInt * of_int (py_round (Xmax / xInt))) + 1) xInt)"
    using pos by (simp add: distList_def dist_ticks_def round2int_def z Let_def)
  also have "\<dots> = Inr (np_arange 0 (xInt * of_int \<lfloor>Xmax / xInt\<rfloor> + 1) xInt)"
    by (simp only: last_tick_floor[OF assms(2)])
  also have "\<dots> = Inr (map (\<lambda>i. of_nat i * xInt) [0 ..< Suc (nat \<lfloor>Xmax / xInt\<rfloor>)])"
    by (simp only: arange_ticks[OF assms(2) k])
  finally have t: "distList ''Meters'' Xmax xInt
           = Inr (map (\<lambda>i. of_nat i * xInt) [0 ..< Suc (nat \<lfloor>Xmax / xInt\<rfloor>)])" .
  have a: "of_int \<lfloor>Xmax / xInt\<rfloor> * xInt \<le> Xmax"
    using pos by (metis of_int_floor_le pos_le_divide_eq)
  have "Xmax / xInt < of_int \<lfloor>Xmax / xInt\<rfloor> + 1" by linarith
  then have b: "Xmax < of_int \<lfloor>Xmax / xInt\<rfloor> * xInt + xInt"
    using pos by (simp add: pos_divide_less_eq algebra_simps)
  from t a b show ?thesis by blast
qed

theorem dist_ticks_inward_witness:
  "distList ''Meters'' 1234 500 = Inr [0, 500, 1000] \<and> (1000::real) \<le> 1234"
proof -
  have h1: "(0::real) \<le> 1234" and h2: "(1::real) \<le> 500" by simp_all
  have "[0 ..< Suc (nat \<lfloor>1234 / 500 :: real\<rfloor>)] = [0, 1, 2]"
    by (simp add: upt_conv_Cons)
  with dist_ticks_inward[OF h1 h2] show ?thesis by simp
qed

end
